theory Spec2Isabelle
  imports Main "HOL-Library.Sublist"
begin

section \<open>Data model\<close>

text \<open>
  A Python \<open>str\<close> is a sequence of code points: a list over a type \<open>'c\<close> of code
  points. The sample data of \<open>main.py\<close> only has code points below 256, so there
  \<open>'c\<close> is \<^typ>\<open>char\<close>, read as Latin-1.

  \<open>datetime.date\<close> and \<open>datetime.datetime\<close> are records of their fields;
  \<open>datetime.date()\<close> keeps year, month and day.
\<close>

record date =
  year :: nat
  month :: nat
  day :: nat

record datetime = date +
  hour :: nat
  minute :: nat
  second :: nat
  microsecond :: nat

definition datetime_date :: "datetime \<Rightarrow> date" where
  "datetime_date dt = \<lparr>year = year dt, month = month dt, day = day dt\<rparr>"

text \<open>Python orders dates by (year, month, day).\<close>

definition date_le :: "date \<Rightarrow> date \<Rightarrow> bool" where
  "date_le a b =
     (year a < year b \<or>
      (year a = year b \<and> (month a < month b \<or> (month a = month b \<and> day a \<le> day b))))"

definition date_ge :: "date \<Rightarrow> date \<Rightarrow> bool" where
  "date_ge a b = date_le b a"

text \<open>
  \<open>class Noticia(BaseModel)\<close> of \<open>main.py\<close>: \<open>tema\<close> is \<open>Optional[str]\<close>,
  default \<open>None\<close>.
\<close>

record 'c Noticia =
  id' :: "'c list"
  fecha_publicacion :: datetime
  fuente :: "'c list"
  titulo :: "'c list"
  contenido :: "'c list"
  tema :: "'c list option"

section \<open>Python primitives used by the filters\<close>

text \<open>\<open>s.startswith(p)\<close>, and \<open>sub in s\<close> on strings: does \<open>sub\<close> occur in \<open>s\<close>.\<close>

fun startswith :: "'c list \<Rightarrow> 'c list \<Rightarrow> bool" where
  "startswith s [] = True"
| "startswith [] (p # ps) = False"
| "startswith (c # cs) (p # ps) = (c = p \<and> startswith cs ps)"

fun str_in :: "'c list \<Rightarrow> 'c list \<Rightarrow> bool" where
  "str_in sub [] = (sub = [])"
| "str_in sub (c # cs) = (startswith (c # cs) sub \<or> str_in sub cs)"

text \<open>
  Truth value of an \<open>Optional[str]\<close> in a condition: \<open>None\<close> and the empty string
  are false. A \<open>date\<close> is always true, so \<open>if fecha_inicio:\<close> only tests for
  \<open>None\<close>.
\<close>

fun truthy :: "'c list option \<Rightarrow> bool" where
  "truthy None = False"
| "truthy (Some s) = (s \<noteq> [])"

text \<open>
  \<open>str.lower\<close> on strings of code points below 256: the letters A-Z and the
  Latin-1 capitals 0xC0-0xDE except the multiplication sign 0xD7 move up by 32, every
  other code point stays, and no code point changes the length.
\<close>

definition lower_char :: "char \<Rightarrow> char" where
  "lower_char c =
     (let k = (of_char c :: nat)
      in if (65 \<le> k \<and> k \<le> 90) \<or> (192 \<le> k \<and> k \<le> 222 \<and> k \<noteq> 215)
         then char_of (k + 32) else c)"

definition lower_latin1 :: "string \<Rightarrow> string" where
  "lower_latin1 s = map lower_char s"

section \<open>The filters of \<open>listar_noticias_con_filtros\<close>\<close>

text \<open>
  The conditions of the five list comprehensions. \<open>lower\<close> is \<open>str.lower\<close>, a
  parameter: the general results hold for every function on strings.
\<close>

definition coincide_q :: "('c list \<Rightarrow> 'c list) \<Rightarrow> 'c list \<Rightarrow> 'c Noticia \<Rightarrow> bool" where
  "coincide_q lower q_lower n =
     (str_in q_lower (lower (titulo n)) \<or> str_in q_lower (lower (contenido n)))"

definition coincide_medio :: "('c list \<Rightarrow> 'c list) \<Rightarrow> 'c list \<Rightarrow> 'c Noticia \<Rightarrow> bool" where
  "coincide_medio lower medio_lower n = (lower (fuente n) = medio_lower)"

definition coincide_tema :: "('c list \<Rightarrow> 'c list) \<Rightarrow> 'c list \<Rightarrow> 'c Noticia \<Rightarrow> bool" where
  "coincide_tema lower tema_lower n =
     (truthy (tema n) \<and> (case tema n of None \<Rightarrow> False | Some t \<Rightarrow> lower t = tema_lower))"

definition desde_fecha :: "date \<Rightarrow> 'c Noticia \<Rightarrow> bool" where
  "desde_fecha fecha_inicio n = date_ge (datetime_date (fecha_publicacion n)) fecha_inicio"

definition hasta_fecha :: "date \<Rightarrow> 'c Noticia \<Rightarrow> bool" where
  "hasta_fecha fecha_fin n = date_le (datetime_date (fecha_publicacion n)) fecha_fin"

text \<open>
  \<open>listar_noticias_con_filtros\<close>, with the module's list \<open>DB_SIMULADA\<close> as the
  parameter \<open>db\<close>: each \<open>if\<close> block replaces \<open>resultados\<close> by its selection.
\<close>

definition listar_noticias_con_filtros_on ::
  "('c list \<Rightarrow> 'c list) \<Rightarrow> 'c Noticia list \<Rightarrow> 'c list option \<Rightarrow> 'c list option \<Rightarrow>
   date option \<Rightarrow> date option \<Rightarrow> 'c list option \<Rightarrow> 'c Noticia list" where
  "listar_noticias_con_filtros_on lower db q medio fecha_inicio fecha_fin tema' =
     (let resultados = db;
          resultados =
            (case q of
               Some q_str \<Rightarrow>
                 if truthy q then filter (coincide_q lower (lower q_str)) resultados
                 else resultados
             | None \<Rightarrow> resultados);
          resultados =
            (case medio of
               Some medio_str \<Rightarrow>
                 if truthy medio then filter (coincide_medio lower (lower medio_str)) resultados
                 else resultados
             | None \<Rightarrow> resultados);
          resultados =
            (case tema' of
               Some tema_str \<Rightarrow>
                 if truthy tema' then filter (coincide_tema lower (lower tema_str)) resultados
                 else resultados
             | None \<Rightarrow> resultados);
          resultados =
            (case fecha_inicio of
               Some d \<Rightarrow> filter (desde_fecha d) resultados
             | None \<Rightarrow> resultados);
          resultados =
            (case fecha_fin of
               Some d \<Rightarrow> filter (hasta_fecha d) resultados
             | None \<Rightarrow> resultados)
      in resultados)"

section \<open>\<open>obtener_noticia\<close>\<close>

datatype error = HTTPException nat string

text \<open>
  \<open>next((n for n in DB_SIMULADA if n.id == noticia_id), None)\<close> is the first article
  with that id, \<^const>\<open>find\<close> on the list; \<open>None\<close> raises the 404.
\<close>

definition obtener_noticia_on :: "'c Noticia list \<Rightarrow> 'c list \<Rightarrow> error + 'c Noticia" where
  "obtener_noticia_on db noticia_id =
     (case find (\<lambda>n. id' n = noticia_id) db of
        None \<Rightarrow> Inl (HTTPException 404 ''Noticia no encontrada'')
      | Some noticia \<Rightarrow> Inr noticia)"

section \<open>The sample store \<open>DB_SIMULADA\<close>\<close>

definition mk_datetime :: "nat \<Rightarrow> nat \<Rightarrow> nat \<Rightarrow> nat \<Rightarrow> nat \<Rightarrow> datetime" where
  "mk_datetime y m d h mi =
     \<lparr>year = y, month = m, day = d, hour = h, minute = mi, second = 0, microsecond = 0\<rparr>"

definition mk_date :: "nat \<Rightarrow> nat \<Rightarrow> nat \<Rightarrow> date" where
  "mk_date y m d = \<lparr>year = y, month = m, day = d\<rparr>"

definition N001 :: "char Noticia" where
  "N001 = \<lparr>id' = ''N001'',
     fecha_publicacion = mk_datetime 2025 10 25 10 30,
     fuente = ''El Mercurio'',
     titulo = ''El avance de la IA revoluciona la industria local'',
     contenido = ''Expertos debaten sobre el impacto de la Inteligencia Artificial en el mercado laboral.'',
     tema = Some (''Tecnolog'' @ [CHR 0xED] @ ''a'')\<rparr>"

definition N002 :: "char Noticia" where
  "N002 = \<lparr>id' = ''N002'',
     fecha_publicacion = mk_datetime 2025 10 24 15 0,
     fuente = ''La Naci'' @ [CHR 0xF3] @ ''n'',
     titulo = ''Crisis clim'' @ [CHR 0xE1] @ ''tica: Sequ'' @ [CHR 0xED]
              @ ''a afecta a la agricultura del sur'',
     contenido = ''Los agricultores piden ayuda al gobierno tras meses sin lluvia.'',
     tema = Some ''Medio Ambiente''\<rparr>"

definition N003 :: "char Noticia" where
  "N003 = \<lparr>id' = ''N003'',
     fecha_publicacion = mk_datetime 2025 10 25 11 45,
     fuente = ''El Mercurio'',
     titulo = ''Resultados electorales del fin de semana'',
     contenido = ''An'' @ [CHR 0xE1] @ ''lisis detallado de los votos en las principales regiones del pa''
              @ [CHR 0xED] @ ''s.'',
     tema = Some (''Pol'' @ [CHR 0xED] @ ''tica'')\<rparr>"

definition N004 :: "char Noticia" where
  "N004 = \<lparr>id' = ''N004'',
     fecha_publicacion = mk_datetime 2025 10 20 8 0,
     fuente = ''Diario Financiero'',
     titulo = ''Grandes inversiones en infraestructura tecnol'' @ [CHR 0xF3] @ ''gica'',
     contenido = ''Se anuncia un nuevo centro de datos con tecnolog'' @ [CHR 0xED]
              @ ''a de punta.'',
     tema = Some (''Tecnolog'' @ [CHR 0xED] @ ''a'')\<rparr>"

definition DB_SIMULADA :: "char Noticia list" where
  "DB_SIMULADA = [N001, N002, N003, N004]"

text \<open>The two endpoints as the module runs them: on \<open>DB_SIMULADA\<close>.\<close>

definition listar_noticias_con_filtros ::
  "string option \<Rightarrow> string option \<Rightarrow> date option \<Rightarrow> date option \<Rightarrow> string option \<Rightarrow>
   char Noticia list" where
  "listar_noticias_con_filtros =
     listar_noticias_con_filtros_on lower_latin1 DB_SIMULADA"

definition obtener_noticia :: "string \<Rightarrow> error + char Noticia" where
  "obtener_noticia = obtener_noticia_on DB_SIMULADA"

section \<open>The selections that run, taken together\<close>

text \<open>
  The condition an article has to pass to survive all five \<open>if\<close> blocks of
  \<open>listar_noticias_con_filtros\<close>: the condition of each list comprehension, under the
  guard of its block (\<open>if q:\<close>, \<open>if medio:\<close>, \<open>if tema:\<close>, \<open>if fecha_inicio:\<close>,
  \<open>if fecha_fin:\<close>). It is read off the code and only serves the proofs.
\<close>

definition filtros_aplicados ::
  "('c list \<Rightarrow> 'c list) \<Rightarrow> 'c list option \<Rightarrow> 'c list option \<Rightarrow> date option \<Rightarrow>
   date option \<Rightarrow> 'c list option \<Rightarrow> 'c Noticia \<Rightarrow> bool" where
  "filtros_aplicados lower q medio fecha_inicio fecha_fin tema' n =
     ((case q of None \<Rightarrow> True
       | Some q_str \<Rightarrow> if truthy q then coincide_q lower (lower q_str) n else True) \<and>
      (case medio of None \<Rightarrow> True
       | Some medio_str \<Rightarrow> if truthy medio then coincide_medio lower (lower medio_str) n else True) \<and>
      (case tema' of None \<Rightarrow> True
       | Some tema_str \<Rightarrow> if truthy tema' then coincide_tema lower (lower tema_str) n else True) \<and>
      (case fecha_inicio of None \<Rightarrow> True | Some d \<Rightarrow> desde_fecha d n) \<and>
      (case fecha_fin of None \<Rightarrow> True | Some d \<Rightarrow> hasta_fecha d n))"

section \<open>The search as the specification words it\<close>

text \<open>
  The five filter predicates in the words of the specification, none taken from the
  code: the keyword is a case-insensitive substring of the title or of the body; the
  source matches exactly, case-insensitively; the topic matches exactly,
  case-insensitively, and an article without topic never matches; the date of
  \<open>publishedAt\<close> is on or after \<open>dateFrom\<close>, on or before \<open>dateTo\<close>.
\<close>

definition spec_keyword :: "('c list \<Rightarrow> 'c list) \<Rightarrow> 'c list \<Rightarrow> 'c Noticia \<Rightarrow> bool" where
  "spec_keyword lower k n =
     (sublist (lower k) (lower (titulo n)) \<or> sublist (lower k) (lower (contenido n)))"

definition spec_source :: "('c list \<Rightarrow> 'c list) \<Rightarrow> 'c list \<Rightarrow> 'c Noticia \<Rightarrow> bool" where
  "spec_source lower s n = (lower (fuente n) = lower s)"

definition spec_topic :: "('c list \<Rightarrow> 'c list) \<Rightarrow> 'c list \<Rightarrow> 'c Noticia \<Rightarrow> bool" where
  "spec_topic lower t n = (case tema n of None \<Rightarrow> False | Some x \<Rightarrow> lower x = lower t)"

definition spec_date_from :: "date \<Rightarrow> 'c Noticia \<Rightarrow> bool" where
  "spec_date_from d n = date_le d (datetime_date (fecha_publicacion n))"

definition spec_date_to :: "date \<Rightarrow> 'c Noticia \<Rightarrow> bool" where
  "spec_date_to d n = date_le (datetime_date (fecha_publicacion n)) d"

text \<open>
  The conjunction of the predicates of all supplied criteria: a criterion is supplied
  when the caller gives it a value, the empty string included. \<open>spec_search\<close> is the
  store's sequence restricted to the articles that satisfy it.
\<close>

definition spec_matches ::
  "('c list \<Rightarrow> 'c list) \<Rightarrow> 'c list option \<Rightarrow> 'c list option \<Rightarrow> date option \<Rightarrow>
   date option \<Rightarrow> 'c list option \<Rightarrow> 'c Noticia \<Rightarrow> bool" where
  "spec_matches lower keyword source dateFrom dateTo topic n =
     ((case keyword of None \<Rightarrow> True | Some k \<Rightarrow> spec_keyword lower k n) \<and>
      (case source of None \<Rightarrow> True | Some s \<Rightarrow> spec_source lower s n) \<and>
      (case topic of None \<Rightarrow> True | Some t \<Rightarrow> spec_topic lower t n) \<and>
      (case dateFrom of None \<Rightarrow> True | Some d \<Rightarrow> spec_date_from d n) \<and>
      (case dateTo of None \<Rightarrow> True | Some d \<Rightarrow> spec_date_to d n))"

definition spec_search ::
  "('c list \<Rightarrow> 'c list) \<Rightarrow> 'c Noticia list \<Rightarrow> 'c list option \<Rightarrow> 'c list option \<Rightarrow>
   date option \<Rightarrow> date option \<Rightarrow> 'c list option \<Rightarrow> 'c Noticia list" where
  "spec_search lower db keyword source dateFrom dateTo topic =
     filter (spec_matches lower keyword source dateFrom dateTo topic) db"

section \<open>Basic facts\<close>

text \<open>The substring test is \<^const>\<open>sublist\<close>: some prefix and suffix surround the needle.\<close>

lemma startswith_prefix: "startswith s p = prefix p s"
  by (induction s p rule: startswith.induct) auto

lemma str_in_sublist: "str_in sub s = sublist sub s"
  by (induction s) (simp_all add: sublist_Cons_right startswith_prefix)

text \<open>The comparison of dates is a linear order.\<close>

lemma date_le_refl: "date_le d d"
  by (simp add: date_le_def)

lemma date_le_trans: "date_le a b \<Longrightarrow> date_le b c \<Longrightarrow> date_le a c"
  by (auto simp: date_le_def)

lemma date_le_antisym: "date_le a b \<Longrightarrow> date_le b a \<Longrightarrow> a = (b::date)"
  by (auto simp: date_le_def)

lemma date_le_total: "date_le a b \<or> date_le b a"
  by (auto simp: date_le_def)

text \<open>Five selections in a row are one selection by the conjunction.\<close>

lemma listar_is_filter:
  "listar_noticias_con_filtros_on lower db q medio fecha_inicio fecha_fin tema' =
   filter (filtros_aplicados lower q medio fecha_inicio fecha_fin tema') db"
  unfolding listar_noticias_con_filtros_on_def filtros_aplicados_def Let_def
  by (cases q; cases medio; cases tema'; cases fecha_inicio; cases fecha_fin)
     (auto intro!: filter_cong)

lemma listar_set:
  "n \<in> set (listar_noticias_con_filtros_on lower db q medio fecha_inicio fecha_fin tema') \<longleftrightarrow>
   n \<in> set db \<and> filtros_aplicados lower q medio fecha_inicio fecha_fin tema' n"
  by (simp add: listar_is_filter)

text \<open>
  Where no supplied source or topic is the empty string, the selections that run are
  the predicates of the supplied criteria. An empty keyword is a substring of every
  string, so skipping it changes nothing.
\<close>

lemma filtros_aplicados_spec:
  assumes l: "\<forall>s. (lower s = []) = (s = [])"
    and m: "medio \<noteq> Some []" and t: "tema' \<noteq> Some []"
  shows "filtros_aplicados lower q medio fecha_inicio fecha_fin tema' n =
         spec_matches lower q medio fecha_inicio fecha_fin tema' n"
proof -
  from l have l0: "lower [] = []" by simp
  have kq: "(case q of None \<Rightarrow> True
             | Some q_str \<Rightarrow> if truthy q then coincide_q lower (lower q_str) n else True) =
            (case q of None \<Rightarrow> True | Some k \<Rightarrow> spec_keyword lower k n)"
    by (cases q) (simp_all add: coincide_q_def spec_keyword_def str_in_sublist l0)
  have km: "(case medio of None \<Rightarrow> True
             | Some medio_str \<Rightarrow>
                 if truthy medio then coincide_medio lower (lower medio_str) n else True) =
            (case medio of None \<Rightarrow> True | Some s \<Rightarrow> spec_source lower s n)"
    using m by (cases medio) (simp_all add: coincide_medio_def spec_source_def)
  have kt: "(case tema' of None \<Rightarrow> True
             | Some tema_str \<Rightarrow>
                 if truthy tema' then coincide_tema lower (lower tema_str) n else True) =
            (case tema' of None \<Rightarrow> True | Some x \<Rightarrow> spec_topic lower x n)"
  proof (cases tema')
    case None
    then show ?thesis by simp
  next
    case (Some x)
    with t have "x \<noteq> []" by simp
    with l have "lower x \<noteq> []" by simp
    with l0 \<open>x \<noteq> []\<close> Some show ?thesis
      by (cases "tema n") (auto simp: coincide_tema_def spec_topic_def)
  qed
  have kd: "(case fecha_inicio of None \<Rightarrow> True | Some d \<Rightarrow> desde_fecha d n) =
            (case fecha_inicio of None \<Rightarrow> True | Some d \<Rightarrow> spec_date_from d n)"
    by (cases fecha_inicio) (simp_all add: desde_fecha_def spec_date_from_def date_ge_def)
  have kh: "(case fecha_fin of None \<Rightarrow> True | Some d \<Rightarrow> hasta_fecha d n) =
            (case fecha_fin of None \<Rightarrow> True | Some d \<Rightarrow> spec_date_to d n)"
    by (cases fecha_fin) (simp_all add: hasta_fecha_def spec_date_to_def)
  show ?thesis
    unfolding filtros_aplicados_def spec_matches_def kq km kt kd kh by (rule refl)
qed

lemma db_ids: "map id' DB_SIMULADA = [''N001'', ''N002'', ''N003'', ''N004'']"
  by (simp add: DB_SIMULADA_def N001_def N002_def N003_def N004_def)

lemma lower_latin1_empty: "(lower_latin1 s = []) = (s = [])"
  by (simp add: lower_latin1_def)

lemma lower_latin1_mercurio: "lower_latin1 ''EL MERCURIO'' = lower_latin1 ''el mercurio''"
  by code_simp

lemma find_id_None: "find (\<lambda>n. id' n = i) db = None \<longleftrightarrow> (\<forall>n \<in> set db. id' n \<noteq> i)"
  by (auto simp: find_None_iff)

lemma find_id_Some: "find (\<lambda>n. id' n = i) db = Some n \<Longrightarrow> n \<in> set db \<and> id' n = i"
  by (auto simp: find_Some_iff)

lemma find_id_unique:
  "distinct (map id' db) \<Longrightarrow> n \<in> set db \<Longrightarrow> find (\<lambda>m. id' m = id' n) db = Some n"
  by (induction db) (auto simp: image_iff)

lemma id_in_filter:
  assumes "distinct (map id' db)" and "n \<in> set db"
  shows "id' n \<in> id' ` set (filter P db) \<longleftrightarrow> P n"
proof -
  from assms(1) have "inj_on id' (set db)" by (simp add: distinct_map)
  with assms(2) show ?thesis by (auto simp: inj_on_def)
qed

section \<open>The search\<close>

text \<open>
  C1. With source="" and nothing else, the search on the sample store is not the store
  restricted to the articles that satisfy the supplied predicates: the code returns all
  four articles, and no article has the empty string as its source.
\<close>

theorem empty_source_not_restriction:
  "listar_noticias_con_filtros None (Some '''') None None None = DB_SIMULADA
   \<and> spec_search lower_latin1 DB_SIMULADA None (Some '''') None None None = []"
  by code_simp

text \<open>
  C1, as the code has it: for every combination of supplied criteria in which no
  supplied source or topic is the empty string, the search returns the store's sequence
  restricted to exactly the articles that satisfy the conjunction of all supplied filter
  predicates (\<open>str.lower\<close> maps only the empty string to the empty string). For every
  combination of criteria the result is a subsequence of the store, in the store's
  order, and with no criteria it is the store itself.
\<close>

theorem search_is_ordered_restriction:
  "((\<forall>s. (lower s = []) = (s = [])) \<and> medio \<noteq> Some [] \<and> tema' \<noteq> Some [] \<longrightarrow>
      listar_noticias_con_filtros_on lower db q medio fecha_inicio fecha_fin tema' =
      spec_search lower db q medio fecha_inicio fecha_fin tema')
   \<and> subseq (listar_noticias_con_filtros_on lower db q medio fecha_inicio fecha_fin tema') db
   \<and> set (listar_noticias_con_filtros_on lower db q medio fecha_inicio fecha_fin tema') \<subseteq> set db
   \<and> listar_noticias_con_filtros_on lower db None None None None None = db"
proof (intro conjI impI)
  assume h: "(\<forall>s. (lower s = []) = (s = [])) \<and> medio \<noteq> Some [] \<and> tema' \<noteq> Some []"
  then have "filtros_aplicados lower q medio fecha_inicio fecha_fin tema' =
             spec_matches lower q medio fecha_inicio fecha_fin tema'"
    by (intro ext filtros_aplicados_spec) simp_all
  then show "listar_noticias_con_filtros_on lower db q medio fecha_inicio fecha_fin tema' =
      spec_search lower db q medio fecha_inicio fecha_fin tema'"
    by (simp add: listar_is_filter spec_search_def)
next
  show "subseq (listar_noticias_con_filtros_on lower db q medio fecha_inicio fecha_fin tema') db"
    by (simp add: listar_is_filter)
  show "set (listar_noticias_con_filtros_on lower db q medio fecha_inicio fecha_fin tema')
        \<subseteq> set db"
    by (simp add: listar_is_filter)
  show "listar_noticias_con_filtros_on lower db None None None None None = db"
    by (simp add: listar_noticias_con_filtros_on_def)
qed

text \<open>
  On the sample store, with all five criteria given: only N001 has "ia", the source
  El Mercurio, the topic and a date from 2025-10-21 to 2025-10-25.
\<close>

theorem search_is_ordered_restriction_witness:
  "(\<forall>s. (lower_latin1 s = []) = (s = []))
   \<and> Some ''el mercurio'' \<noteq> Some [] \<and> Some (''TECNOLOG'' @ [CHR 0xCD] @ ''A'') \<noteq> Some []
   \<and> listar_noticias_con_filtros_on lower_latin1 DB_SIMULADA (Some ''ia'') (Some ''el mercurio'')
       (Some (mk_date 2025 10 21)) (Some (mk_date 2025 10 25))
       (Some (''TECNOLOG'' @ [CHR 0xCD] @ ''A'')) = [N001]
   \<and> spec_search lower_latin1 DB_SIMULADA (Some ''ia'') (Some ''el mercurio'')
       (Some (mk_date 2025 10 21)) (Some (mk_date 2025 10 25))
       (Some (''TECNOLOG'' @ [CHR 0xCD] @ ''A'')) = [N001]
   \<and> subseq [N001] DB_SIMULADA"
proof -
  have l: "\<forall>s. (lower_latin1 s = []) = (s = [])" by (simp add: lower_latin1_empty)
  have m: "Some ''el mercurio'' \<noteq> Some []" by simp
  have t: "Some (''TECNOLOG'' @ [CHR 0xCD] @ ''A'') \<noteq> Some []" by simp
  have a: "listar_noticias_con_filtros_on lower_latin1 DB_SIMULADA (Some ''ia'')
     (Some ''el mercurio'') (Some (mk_date 2025 10 21)) (Some (mk_date 2025 10 25))
     (Some (''TECNOLOG'' @ [CHR 0xCD] @ ''A'')) = [N001]"
    by code_simp
  from search_is_ordered_restriction [of lower_latin1 "Some ''el mercurio''"
      "Some (''TECNOLOG'' @ [CHR 0xCD] @ ''A'')" DB_SIMULADA "Some ''ia''"
      "Some (mk_date 2025 10 21)" "Some (mk_date 2025 10 25)"] l m t
  have r: "[N001] = spec_search lower_latin1 DB_SIMULADA (Some ''ia'') (Some ''el mercurio'')
       (Some (mk_date 2025 10 21)) (Some (mk_date 2025 10 25))
       (Some (''TECNOLOG'' @ [CHR 0xCD] @ ''A''))
     \<and> subseq [N001] DB_SIMULADA"
    unfolding a by blast
  from r have "[N001] = spec_search lower_latin1 DB_SIMULADA (Some ''ia'')
       (Some ''el mercurio'') (Some (mk_date 2025 10 21)) (Some (mk_date 2025 10 25))
       (Some (''TECNOLOG'' @ [CHR 0xCD] @ ''A''))"
    by (rule conjunct1)
  then have e: "spec_search lower_latin1 DB_SIMULADA (Some ''ia'') (Some ''el mercurio'')
       (Some (mk_date 2025 10 21)) (Some (mk_date 2025 10 25))
       (Some (''TECNOLOG'' @ [CHR 0xCD] @ ''A'')) = [N001]"
    by (rule sym)
  from r have q: "subseq [N001] DB_SIMULADA" by (rule conjunct2)
  from l m t a e q show ?thesis by (intro conjI)
qed

text \<open>
  C2. On the sample store the keyword "IA" alone does not select N001 only: "ia" also
  occurs in "lluvia" (body of N002) and in "anuncia" (body of N004).
\<close>

theorem keyword_IA_not_only_N001:
  "listar_noticias_con_filtros (Some ''IA'') None None None None \<noteq> [N001]"
  by code_simp

text \<open>
  C2, as the code has it: on the sample store the keyword "IA" alone returns N001, N002
  and N004, in this order.
\<close>

theorem keyword_IA_sample:
  "listar_noticias_con_filtros (Some ''IA'') None None None None = [N001, N002, N004]"
  by code_simp

text \<open>
  C3. With a non-empty keyword \<open>k\<close> and no other criterion, an article of the store is
  in the result if and only if the lowercased \<open>k\<close> is a substring of its lowercased title
  or of its lowercased body.
\<close>

theorem keyword_match_iff:
  assumes "k \<noteq> []"
  shows "n \<in> set (listar_noticias_con_filtros_on lower db (Some k) None None None None) \<longleftrightarrow>
         n \<in> set db \<and>
         (sublist (lower k) (lower (titulo n)) \<or> sublist (lower k) (lower (contenido n)))"
  using assms by (simp add: listar_set filtros_aplicados_def coincide_q_def str_in_sublist)

theorem keyword_match_iff_witness:
  "''IA'' \<noteq> [] \<and> N002 \<in> set DB_SIMULADA
   \<and> sublist (lower_latin1 ''IA'') (lower_latin1 (contenido N002))
   \<and> N002 \<in> set (listar_noticias_con_filtros_on lower_latin1 DB_SIMULADA (Some ''IA'')
                    None None None None)"
proof -
  have h: "''IA'' \<noteq> []" by simp
  have m: "N002 \<in> set DB_SIMULADA" by (simp add: DB_SIMULADA_def)
  have s: "sublist (lower_latin1 ''IA'') (lower_latin1 (contenido N002))" by code_simp
  from keyword_match_iff [OF h, of N002 lower_latin1 DB_SIMULADA] h m s show ?thesis by simp
qed

text \<open>
  C4. With a non-empty source \<open>s\<close> and no other criterion, an article of the store is
  in the result if and only if its lowercased source equals the lowercased \<open>s\<close>, the
  whole string and not a part of it; so "EL MERCURIO" and "el mercurio" give the same
  result on every store.
\<close>

theorem source_match_iff:
  "(s \<noteq> [] \<longrightarrow>
      (n \<in> set (listar_noticias_con_filtros_on lower db None (Some s) None None None) \<longleftrightarrow>
       n \<in> set db \<and> lower (fuente n) = lower s))
   \<and> listar_noticias_con_filtros_on lower_latin1 db' None (Some ''EL MERCURIO'') None None None =
     listar_noticias_con_filtros_on lower_latin1 db' None (Some ''el mercurio'') None None None"
proof (intro conjI impI)
  assume "s \<noteq> []"
  then show "n \<in> set (listar_noticias_con_filtros_on lower db None (Some s) None None None) \<longleftrightarrow>
       n \<in> set db \<and> lower (fuente n) = lower s"
    by (simp add: listar_set filtros_aplicados_def coincide_medio_def)
next
  show "listar_noticias_con_filtros_on lower_latin1 db' None (Some ''EL MERCURIO'') None None None =
     listar_noticias_con_filtros_on lower_latin1 db' None (Some ''el mercurio'') None None None"
    by (simp add: listar_noticias_con_filtros_on_def lower_latin1_mercurio)
qed

text \<open>
  On the sample store "EL MERCURIO" selects N001 and N003, and "Mercurio", a part of
  the source's name, selects nothing.
\<close>

theorem source_match_iff_witness:
  "''EL MERCURIO'' \<noteq> [] \<and> N003 \<in> set DB_SIMULADA
   \<and> lower_latin1 (fuente N003) = lower_latin1 ''EL MERCURIO''
   \<and> N003 \<in> set (listar_noticias_con_filtros_on lower_latin1 DB_SIMULADA None
                    (Some ''EL MERCURIO'') None None None)
   \<and> listar_noticias_con_filtros_on lower_latin1 DB_SIMULADA None (Some ''el mercurio'')
       None None None = [N001, N003]
   \<and> listar_noticias_con_filtros_on lower_latin1 DB_SIMULADA None (Some ''EL MERCURIO'')
       None None None = [N001, N003]
   \<and> listar_noticias_con_filtros_on lower_latin1 DB_SIMULADA None (Some ''Mercurio'')
       None None None = []"
proof -
  have h: "''EL MERCURIO'' \<noteq> []" by simp
  have m: "N003 \<in> set DB_SIMULADA" by (simp add: DB_SIMULADA_def)
  have e: "lower_latin1 (fuente N003) = lower_latin1 ''EL MERCURIO''" by code_simp
  have a: "listar_noticias_con_filtros_on lower_latin1 DB_SIMULADA None (Some ''el mercurio'')
       None None None = [N001, N003]"
    by code_simp
  have b: "listar_noticias_con_filtros_on lower_latin1 DB_SIMULADA None (Some ''Mercurio'')
       None None None = []"
    by code_simp
  from source_match_iff [of "''EL MERCURIO''" N003 lower_latin1 DB_SIMULADA DB_SIMULADA]
    h m e a b show ?thesis by simp
qed

text \<open>
  C5. With a non-empty topic \<open>t\<close> and no other criterion, an article of the store is in
  the result if and only if it has a topic whose lowercased form equals the lowercased
  \<open>t\<close>; an article without topic is never in the result. \<open>str.lower\<close> maps only the
  empty string to the empty string.
\<close>

theorem topic_match_iff:
  assumes "t \<noteq> []" and "\<forall>s. (lower s = []) = (s = [])"
  shows "(n \<in> set (listar_noticias_con_filtros_on lower db None None None None (Some t)) \<longleftrightarrow>
          n \<in> set db \<and> (\<exists>x. tema n = Some x \<and> lower x = lower t))
         \<and> (tema n = None \<longrightarrow>
              n \<notin> set (listar_noticias_con_filtros_on lower db None None None None (Some t)))"
proof -
  from assms have "lower [] \<noteq> lower t" by metis
  with assms(1) show ?thesis
    by (cases "tema n") (auto simp: listar_set filtros_aplicados_def coincide_tema_def)
qed

text \<open>
  On the sample store extended by a copy of N002 without topic: the topic in capitals
  selects N001 and N004, and not the copy.
\<close>

theorem topic_match_iff_witness:
  "''TECNOLOG'' @ [CHR 0xCD] @ ''A'' \<noteq> [] \<and> (\<forall>s. (lower_latin1 s = []) = (s = []))
   \<and> N004 \<in> set (DB_SIMULADA @ [N002\<lparr>tema := None\<rparr>])
   \<and> (\<exists>x. tema N004 = Some x \<and> lower_latin1 x = lower_latin1 (''TECNOLOG'' @ [CHR 0xCD] @ ''A''))
   \<and> N004 \<in> set (listar_noticias_con_filtros_on lower_latin1
        (DB_SIMULADA @ [N002\<lparr>tema := None\<rparr>]) None None None None
        (Some (''TECNOLOG'' @ [CHR 0xCD] @ ''A'')))
   \<and> tema (N002\<lparr>tema := None\<rparr>) = None
   \<and> N002\<lparr>tema := None\<rparr> \<notin> set (listar_noticias_con_filtros_on lower_latin1
        (DB_SIMULADA @ [N002\<lparr>tema := None\<rparr>]) None None None None
        (Some (''TECNOLOG'' @ [CHR 0xCD] @ ''A'')))
   \<and> listar_noticias_con_filtros_on lower_latin1
        (DB_SIMULADA @ [N002\<lparr>tema := None\<rparr>]) None None None None
        (Some (''TECNOLOG'' @ [CHR 0xCD] @ ''A'')) = [N001, N004]"
proof -
  have h: "''TECNOLOG'' @ [CHR 0xCD] @ ''A'' \<noteq> []" by simp
  have l: "\<forall>s. (lower_latin1 s = []) = (s = [])" by (simp add: lower_latin1_empty)
  have m: "N004 \<in> set (DB_SIMULADA @ [N002\<lparr>tema := None\<rparr>])" by (simp add: DB_SIMULADA_def)
  have x: "tema N004 = Some (''Tecnolog'' @ [CHR 0xED] @ ''a'')
           \<and> lower_latin1 (''Tecnolog'' @ [CHR 0xED] @ ''a'') =
             lower_latin1 (''TECNOLOG'' @ [CHR 0xCD] @ ''A'')"
    by code_simp
  then have e: "\<exists>x. tema N004 = Some x
                  \<and> lower_latin1 x = lower_latin1 (''TECNOLOG'' @ [CHR 0xCD] @ ''A'')"
    by blast
  have u: "tema (N002\<lparr>tema := None\<rparr>) = None" by simp
  have a: "listar_noticias_con_filtros_on lower_latin1
        (DB_SIMULADA @ [N002\<lparr>tema := None\<rparr>]) None None None None
        (Some (''TECNOLOG'' @ [CHR 0xCD] @ ''A'')) = [N001, N004]"
    by code_simp
  from topic_match_iff [OF h l, of N004 "DB_SIMULADA @ [N002\<lparr>tema := None\<rparr>]"]
    topic_match_iff [OF h l, of "N002\<lparr>tema := None\<rparr>" "DB_SIMULADA @ [N002\<lparr>tema := None\<rparr>]"]
    h l m e u a
  show ?thesis by blast
qed

text \<open>
  C6. With date bounds and no other criterion, an article of the store is in the result
  if and only if the date of its \<open>fecha_publicacion\<close> is on or after \<open>fecha_inicio\<close>,
  when that is given, and on or before \<open>fecha_fin\<close>, when that is given. Both bounds
  are inclusive: an article of the store dated exactly at the bound is in the result.
\<close>

theorem date_range_iff:
  "(n \<in> set (listar_noticias_con_filtros_on lower db None None fecha_inicio fecha_fin None) \<longleftrightarrow>
      n \<in> set db
      \<and> (case fecha_inicio of None \<Rightarrow> True
         | Some d \<Rightarrow> date_le d (datetime_date (fecha_publicacion n)))
      \<and> (case fecha_fin of None \<Rightarrow> True
         | Some d \<Rightarrow> date_le (datetime_date (fecha_publicacion n)) d))
   \<and> (m \<in> set db \<longrightarrow>
        m \<in> set (listar_noticias_con_filtros_on lower db None None
                   (Some (datetime_date (fecha_publicacion m))) None None)
      \<and> m \<in> set (listar_noticias_con_filtros_on lower db None None
                   None (Some (datetime_date (fecha_publicacion m))) None)
      \<and> m \<in> set (listar_noticias_con_filtros_on lower db None None
                   (Some (datetime_date (fecha_publicacion m)))
                   (Some (datetime_date (fecha_publicacion m))) None))"
  by (simp add: listar_set filtros_aplicados_def desde_fecha_def hasta_fecha_def date_ge_def
      date_le_refl split: option.splits)

text \<open>
  On the sample store, from 2025-10-21 to 2025-10-25: N001, dated 2025-10-25, is in
  the result, which is N001, N002, N003.
\<close>

theorem date_range_iff_witness:
  "N001 \<in> set DB_SIMULADA
   \<and> datetime_date (fecha_publicacion N001) = mk_date 2025 10 25
   \<and> date_le (mk_date 2025 10 21) (datetime_date (fecha_publicacion N001))
   \<and> date_le (datetime_date (fecha_publicacion N001)) (mk_date 2025 10 25)
   \<and> N001 \<in> set (listar_noticias_con_filtros_on lower_latin1 DB_SIMULADA None None
                    (Some (mk_date 2025 10 21)) (Some (mk_date 2025 10 25)) None)
   \<and> N001 \<in> set (listar_noticias_con_filtros_on lower_latin1 DB_SIMULADA None None
                    None (Some (datetime_date (fecha_publicacion N001))) None)
   \<and> listar_noticias_con_filtros_on lower_latin1 DB_SIMULADA None None
       (Some (mk_date 2025 10 21)) (Some (mk_date 2025 10 25)) None = [N001, N002, N003]"
proof -
  have m: "N001 \<in> set DB_SIMULADA" by (simp add: DB_SIMULADA_def)
  have d: "datetime_date (fecha_publicacion N001) = mk_date 2025 10 25" by code_simp
  have lo: "date_le (mk_date 2025 10 21) (datetime_date (fecha_publicacion N001))"
    by code_simp
  have hi: "date_le (datetime_date (fecha_publicacion N001)) (mk_date 2025 10 25)"
    by code_simp
  have a: "listar_noticias_con_filtros_on lower_latin1 DB_SIMULADA None None
       (Some (mk_date 2025 10 21)) (Some (mk_date 2025 10 25)) None = [N001, N002, N003]"
    by code_simp
  from date_range_iff [of N001 lower_latin1 DB_SIMULADA "Some (mk_date 2025 10 21)"
      "Some (mk_date 2025 10 25)" N001] m d lo hi a
  show ?thesis by simp
qed

section \<open>Lookup by id\<close>

text \<open>
  C7. \<open>obtener_noticia\<close> returns an article of the store with exactly the given id when
  there is one, the article itself when ids are unique in the store, and fails with the
  404 "Noticia no encontrada" when no article has that id. That is its only error, and
  it is raised only then. The function reads the store and nothing else, so a repeated
  call returns the same result.
\<close>

theorem obtener_noticia_found_or_404:
  "((\<exists>n \<in> set db. id' n = i) \<longrightarrow>
      (\<exists>n. obtener_noticia_on db i = Inr n \<and> n \<in> set db \<and> id' n = i))
   \<and> (distinct (map id' db) \<and> m \<in> set db \<longrightarrow> obtener_noticia_on db (id' m) = Inr m)
   \<and> ((\<forall>n \<in> set db. id' n \<noteq> i) \<longrightarrow>
        obtener_noticia_on db i = Inl (HTTPException 404 ''Noticia no encontrada''))
   \<and> (\<forall>e. obtener_noticia_on db i = Inl e \<longrightarrow>
        e = HTTPException 404 ''Noticia no encontrada'' \<and> (\<forall>n \<in> set db. id' n \<noteq> i))"
proof (intro conjI impI allI)
  assume "\<exists>n \<in> set db. id' n = i"
  then have "find (\<lambda>n. id' n = i) db \<noteq> None" by (simp add: find_id_None)
  then obtain n where f: "find (\<lambda>n. id' n = i) db = Some n" by blast
  then have "n \<in> set db \<and> id' n = i" by (rule find_id_Some)
  with f show "\<exists>n. obtener_noticia_on db i = Inr n \<and> n \<in> set db \<and> id' n = i"
    by (simp add: obtener_noticia_on_def)
next
  assume "distinct (map id' db) \<and> m \<in> set db"
  then show "obtener_noticia_on db (id' m) = Inr m"
    by (simp add: obtener_noticia_on_def find_id_unique)
next
  assume "\<forall>n \<in> set db. id' n \<noteq> i"
  then have "find (\<lambda>n. id' n = i) db = None" by (simp add: find_id_None)
  then show "obtener_noticia_on db i = Inl (HTTPException 404 ''Noticia no encontrada'')"
    by (simp add: obtener_noticia_on_def)
next
  fix e assume "obtener_noticia_on db i = Inl e"
  then show "e = HTTPException 404 ''Noticia no encontrada''"
    by (simp add: obtener_noticia_on_def split: option.splits)
next
  fix e assume "obtener_noticia_on db i = Inl e"
  then have "find (\<lambda>n. id' n = i) db = None"
    by (simp add: obtener_noticia_on_def split: option.splits)
  then show "\<forall>n \<in> set db. id' n \<noteq> i" by (simp add: find_id_None)
qed

text \<open>On the sample store: N003 is found, N999 is not.\<close>

theorem obtener_noticia_found_or_404_witness:
  "distinct (map id' DB_SIMULADA) \<and> N003 \<in> set DB_SIMULADA \<and> id' N003 = ''N003''
   \<and> obtener_noticia ''N003'' = Inr N003
   \<and> ''N999'' \<notin> set (map id' DB_SIMULADA)
   \<and> obtener_noticia ''N999'' = Inl (HTTPException 404 ''Noticia no encontrada'')"
proof -
  have d: "distinct (map id' DB_SIMULADA)" by (simp add: db_ids)
  have m: "N003 \<in> set DB_SIMULADA" by (simp add: DB_SIMULADA_def)
  have i: "id' N003 = ''N003''" by (simp add: N003_def)
  have ne: "\<forall>n \<in> set DB_SIMULADA. id' n \<noteq> ''N999''"
    by (simp add: DB_SIMULADA_def N001_def N002_def N003_def N004_def)
  from obtener_noticia_found_or_404 [of DB_SIMULADA "''N999''" N003] d m ne
  have "obtener_noticia_on DB_SIMULADA (id' N003) = Inr N003
        \<and> obtener_noticia_on DB_SIMULADA ''N999'' =
          Inl (HTTPException 404 ''Noticia no encontrada'')"
    by blast
  moreover have "''N999'' \<notin> set (map id' DB_SIMULADA)" by (simp add: db_ids)
  ultimately show ?thesis using d m i by (simp add: obtener_noticia_def)
qed

section \<open>Laws of the search\<close>

text \<open>
  C8. In a store with unique ids, for every keyword \<open>k\<close> and source \<open>s\<close>, the search
  with both is the search with \<open>k\<close> restricted to the ids of the search with \<open>s\<close>:
  the intersection of the two results by id, as sequences and as sets of ids.
\<close>

theorem keyword_source_conjunctive:
  assumes "distinct (map id' db)"
  shows "listar_noticias_con_filtros_on lower db (Some k) (Some s) None None None =
         filter (\<lambda>n. id' n \<in> id' ` set (listar_noticias_con_filtros_on lower db
                                           None (Some s) None None None))
           (listar_noticias_con_filtros_on lower db (Some k) None None None None)
         \<and> id' ` set (listar_noticias_con_filtros_on lower db (Some k) (Some s) None None None) =
           id' ` set (listar_noticias_con_filtros_on lower db (Some k) None None None None)
           \<inter> id' ` set (listar_noticias_con_filtros_on lower db None (Some s) None None None)"
proof -
  have "filter (filtros_aplicados lower (Some k) (Some s) None None None) db =
        filter (\<lambda>n. filtros_aplicados lower (Some k) None None None None n \<and>
                    id' n \<in> id' ` set (filter (filtros_aplicados lower None (Some s) None None None) db))
          db"
  proof (rule filter_cong[OF refl])
    fix n assume "n \<in> set db"
    with assms have e:
      "id' n \<in> id' ` set (filter (filtros_aplicados lower None (Some s) None None None) db)
       \<longleftrightarrow> filtros_aplicados lower None (Some s) None None None n"
      by (rule id_in_filter)
    show "filtros_aplicados lower (Some k) (Some s) None None None n =
       (filtros_aplicados lower (Some k) None None None None n \<and>
        id' n \<in> id' ` set (filter (filtros_aplicados lower None (Some s) None None None) db))"
      unfolding e by (auto simp: filtros_aplicados_def)
  qed
  then have seq: "listar_noticias_con_filtros_on lower db (Some k) (Some s) None None None =
         filter (\<lambda>n. id' n \<in> id' ` set (listar_noticias_con_filtros_on lower db
                                           None (Some s) None None None))
           (listar_noticias_con_filtros_on lower db (Some k) None None None None)"
    by (simp add: listar_is_filter)
  have "id' ` set (filter (\<lambda>n. id' n \<in> B) xs) = id' ` set xs \<inter> B"
    for B and xs :: "'a Noticia list"
    by auto
  with seq show ?thesis by simp
qed

text \<open>On the sample store, with "ia" and El Mercurio: N001.\<close>

theorem keyword_source_conjunctive_witness:
  "distinct (map id' DB_SIMULADA)
   \<and> listar_noticias_con_filtros_on lower_latin1 DB_SIMULADA (Some ''ia'') None
       None None None = [N001, N002, N004]
   \<and> listar_noticias_con_filtros_on lower_latin1 DB_SIMULADA None (Some ''El Mercurio'')
       None None None = [N001, N003]
   \<and> listar_noticias_con_filtros_on lower_latin1 DB_SIMULADA (Some ''ia'')
       (Some ''El Mercurio'') None None None = [N001]
   \<and> [N001] = filter (\<lambda>n. id' n \<in> id' ` set [N001, N003]) [N001, N002, N004]"
proof -
  have d: "distinct (map id' DB_SIMULADA)" by (simp add: db_ids)
  have a: "listar_noticias_con_filtros_on lower_latin1 DB_SIMULADA (Some ''ia'') None
       None None None = [N001, N002, N004]"
    by code_simp
  have b: "listar_noticias_con_filtros_on lower_latin1 DB_SIMULADA None (Some ''El Mercurio'')
       None None None = [N001, N003]"
    by code_simp
  have c: "listar_noticias_con_filtros_on lower_latin1 DB_SIMULADA (Some ''ia'')
       (Some ''El Mercurio'') None None None = [N001]"
    by code_simp
  from keyword_source_conjunctive [OF d, of lower_latin1 "''ia''" "''El Mercurio''"]
  have "[N001] = filter (\<lambda>n. id' n \<in> id' ` set [N001, N003]) [N001, N002, N004]"
    unfolding a b c by (rule conjunct1)
  with d a b c show ?thesis by (intro conjI)
qed

text \<open>
  C9. An empty source is not applied as an exact match on the empty string: on the
  sample store it returns what the search without source returns, all four articles,
  where the exact match on the empty string selects none.
\<close>

theorem empty_source_not_exact_match:
  "listar_noticias_con_filtros None (Some '''') None None None =
     listar_noticias_con_filtros None None None None None
   \<and> listar_noticias_con_filtros None (Some '''') None None None \<noteq>
     filter (coincide_medio lower_latin1 (lower_latin1 '''')) DB_SIMULADA"
  by code_simp

text \<open>
  C9, as the code has it: for keyword, source and topic, an empty string is the same
  as no value; the \<open>if\<close> that guards the filter is false for both, so the filter is
  not applied.
\<close>

theorem empty_string_is_not_supplied:
  "listar_noticias_con_filtros_on lower db (Some []) medio fecha_inicio fecha_fin tema' =
   listar_noticias_con_filtros_on lower db None medio fecha_inicio fecha_fin tema'
   \<and> listar_noticias_con_filtros_on lower db q (Some []) fecha_inicio fecha_fin tema' =
     listar_noticias_con_filtros_on lower db q None fecha_inicio fecha_fin tema'
   \<and> listar_noticias_con_filtros_on lower db q medio fecha_inicio fecha_fin (Some []) =
     listar_noticias_con_filtros_on lower db q medio fecha_inicio fecha_fin None"
  by (simp add: listar_noticias_con_filtros_on_def)

text \<open>
  C10. With the empty string as topic criterion, an article whose topic is the empty
  string is in the result: the criterion is not applied. Here the store holds one such
  article, N001 with its topic emptied.
\<close>

theorem empty_topic_returned_for_empty_criterion:
  "N001\<lparr>tema := Some ''''\<rparr> \<in>
     set (listar_noticias_con_filtros_on lower_latin1 [N001\<lparr>tema := Some ''''\<rparr>]
            None None None None (Some ''''))"
  by code_simp

text \<open>
  C10, as the code has it: with a non-empty topic criterion \<open>t\<close>, whatever the other
  criteria, an article whose topic is the empty string is never in the result, just as
  an article without topic.
\<close>

theorem empty_topic_excluded:
  assumes "t \<noteq> []" and "tema n = Some [] \<or> tema n = None"
  shows "n \<notin> set (listar_noticias_con_filtros_on lower db q medio fecha_inicio fecha_fin (Some t))"
  using assms by (auto simp: listar_set filtros_aplicados_def coincide_tema_def)

text \<open>
  A store of N001 with its topic emptied, then N001: the topic of N001 selects N001
  alone.
\<close>

theorem empty_topic_excluded_witness:
  "''Tecnolog'' @ [CHR 0xED] @ ''a'' \<noteq> [] \<and> tema (N001\<lparr>tema := Some ''''\<rparr>) = Some []
   \<and> N001\<lparr>tema := Some ''''\<rparr> \<notin>
       set (listar_noticias_con_filtros_on lower_latin1 [N001\<lparr>tema := Some ''''\<rparr>, N001]
              None None None None (Some (''Tecnolog'' @ [CHR 0xED] @ ''a'')))
   \<and> listar_noticias_con_filtros_on lower_latin1 [N001\<lparr>tema := Some ''''\<rparr>, N001]
       None None None None (Some (''Tecnolog'' @ [CHR 0xED] @ ''a'')) = [N001]"
proof -
  have h: "''Tecnolog'' @ [CHR 0xED] @ ''a'' \<noteq> []" by simp
  have u: "tema (N001\<lparr>tema := Some ''''\<rparr>) = Some [] \<or> tema (N001\<lparr>tema := Some ''''\<rparr>) = None"
    by simp
  have a: "listar_noticias_con_filtros_on lower_latin1 [N001\<lparr>tema := Some ''''\<rparr>, N001]
       None None None None (Some (''Tecnolog'' @ [CHR 0xED] @ ''a'')) = [N001]"
    by code_simp
  from empty_topic_excluded [OF h u, of lower_latin1 "[N001\<lparr>tema := Some ''''\<rparr>, N001]"
      None None None None] h a
  show ?thesis by simp
qed

end
